theory Spec2Isabelle
  imports Main "HOL-Library.Word"
begin

unbundle bit_operations_syntax

section \<open>Data model\<close>

text \<open>
  The repository has two entry points, \<^verbatim>\<open>main.ts\<close> (the scene is mutated and drawn by
  the loop body) and \<^verbatim>\<open>r3f.tsx\<close> (a reactive scene layer draws, and a post-render hook
  presents). Both are embedded; a definition that exists in both files with different
  bodies carries the suffix \<open>_main\<close> or \<open>_r3f\<close>, one that is the same in both carries
  none.

  Bytes are \<open>8 word\<close>, the unsigned 32-bit values of the foreign interface are
  \<open>32 word\<close>. A \<^verbatim>\<open>Deno.PointerValue\<close> is a 64-bit address; the runtime hands the null
  pointer to the script as \<^verbatim>\<open>null\<close>, which is the address 0 here.

  An \<^verbatim>\<open>i32\<close> parameter of a foreign function is a \<open>32 word\<close>, read in two's
  complement by \<open>sint\<close>: the foreign interface refuses a number outside this range
  with a \<^verbatim>\<open>TypeError\<close> before the native function is called, so no other value
  reaches it. An \<^verbatim>\<open>i32\<close> result is an \<open>int\<close>; it is only compared with 0 and 1.
\<close>

type_synonym u8 = "8 word"
type_synonym u32 = "32 word"
type_synonym i32 = "32 word"
type_synonym pointer = "64 word"

text \<open>The values of \<^verbatim>\<open>Deno.build.os\<close>.\<close>

datatype build_os =
  Darwin | Linux | Android | Windows | Freebsd | Netbsd | Aix | Solaris | Illumos

text \<open>
  Every \<^verbatim>\<open>throw new Error(msg)\<close> of the source is \<open>Error msg\<close>. The reads of
  \<^verbatim>\<open>Deno.UnsafePointerView\<close> are not checked by the runtime; a read that would leave
  the buffer behind the pointer is made explicit as \<open>OutOfBoundsRead\<close>, which is no
  JavaScript exception and is caught by no \<^verbatim>\<open>catch\<close>.
\<close>

datatype error = Error string | OutOfBoundsRead

text \<open>The options object handed to \<^verbatim>\<open>new Deno.UnsafeWindowSurface\<close>.\<close>

record surface =
  system :: string
  windowHandle :: pointer
  displayHandle :: pointer
  width :: int
  height :: int

definition SDL_INIT_VIDEO :: u32 where "SDL_INIT_VIDEO = 0x00000020"
definition SDL_WINDOW_SHOWN :: u32 where "SDL_WINDOW_SHOWN = 0x00000004"
definition SDL_WINDOW_RESIZABLE :: u32 where "SDL_WINDOW_RESIZABLE = 0x00000020"
definition SDL_QUIT :: u32 where "SDL_QUIT = 0x100"

definition sizeOfEvent :: nat where "sizeOfEvent = 56"
definition eventBuf :: "u8 list" where "eventBuf = replicate sizeOfEvent 0"

definition sizeOfSDL_SysWMInfo :: nat where "sizeOfSDL_SysWMInfo = 3 + 4 + 8 * 64"
definition wmInfoBuf :: "u8 list" where "wmInfoBuf = replicate sizeOfSDL_SysWMInfo 0"

section \<open>Struct decoder\<close>

text \<open>
  \<^verbatim>\<open>getUint32\<close> and \<^verbatim>\<open>getPointer\<close> read in the byte order of the machine, which is
  little-endian on every target the runtime is built for (x86-64 and AArch64).
\<close>

fun le_word :: "u8 list \<Rightarrow> 'a::len word" where
  "le_word [] = 0"
| "le_word (b # bs) = ucast b OR push_bit 8 (le_word bs)"

definition getUint32 :: "u8 list \<Rightarrow> nat \<Rightarrow> u32 option" where
  "getUint32 view off =
     (if off + 4 \<le> length view then Some (le_word (take 4 (drop off view))) else None)"

definition getPointer :: "u8 list \<Rightarrow> nat \<Rightarrow> pointer option" where
  "getPointer view off =
     (if off + 8 \<le> length view then Some (le_word (take 8 (drop off view))) else None)"

text \<open>
  The encoder that goes with the decoder, for buffers with known field values: the
  \<open>n\<close> low bytes of a word, lowest first.
\<close>

fun to_le :: "nat \<Rightarrow> 'a::len word \<Rightarrow> u8 list" where
  "to_le 0 w = []"
| "to_le (Suc n) w = ucast w # to_le n (drop_bit 8 w)"

definition le_bytes32 :: "u32 \<Rightarrow> u8 list" where
  "le_bytes32 w = [ucast w, ucast (drop_bit 8 w), ucast (drop_bit 16 w), ucast (drop_bit 24 w)]"

definition le_bytes64 :: "pointer \<Rightarrow> u8 list" where
  "le_bytes64 w =
     [ucast w, ucast (drop_bit 8 w), ucast (drop_bit 16 w), ucast (drop_bit 24 w),
      ucast (drop_bit 32 w), ucast (drop_bit 40 w), ucast (drop_bit 48 w), ucast (drop_bit 56 w)]"

text \<open>
  A synthetic window-manager-info record: the three version bytes and their padding, the
  subsystem discriminant, then the three pointer-sized slots of the union that the
  source reads, then anything.
\<close>

definition synthetic_wm_info ::
  "u8 \<Rightarrow> u8 \<Rightarrow> u8 \<Rightarrow> u8 \<Rightarrow> u32 \<Rightarrow> pointer \<Rightarrow> pointer \<Rightarrow> pointer \<Rightarrow> u8 list \<Rightarrow> u8 list" where
  "synthetic_wm_info major minor patch pad subsystem slot8 slot16 slot24 rest =
     [major, minor, patch, pad] @ le_bytes32 subsystem @
     le_bytes64 slot8 @ le_bytes64 slot16 @ le_bytes64 slot24 @ rest"

text \<open>
  A native function that fills a buffer of the script writes \<open>bytes\<close> from the start of
  \<open>buf\<close> and leaves the rest as it was. It is taken not to write past the end of the
  buffer it was given (a \<^verbatim>\<open>Uint8Array\<close> does not grow).
\<close>

definition store :: "u8 list \<Rightarrow> u8 list \<Rightarrow> u8 list" where
  "store bytes buf = take (length buf) (bytes @ drop (length bytes) buf)"

section \<open>Native library binding\<close>

text \<open>
  The symbols of \<^verbatim>\<open>Deno.dlopen\<close> that return something, as stubs: the foreign functions
  are outside the repository. \<open>SDL_GetVersion\<close> is the bytes the call writes,
  \<open>SDL_GetWindowWMInfo\<close> maps the window and the buffer it is given to its status
  and the bytes it writes.
\<close>

record sdl2 =
  SDL_CreateWindow :: "u8 list \<Rightarrow> i32 \<Rightarrow> i32 \<Rightarrow> i32 \<Rightarrow> i32 \<Rightarrow> u32 \<Rightarrow> pointer"
  SDL_Metal_CreateView :: "pointer \<Rightarrow> pointer"
  SDL_GetVersion :: "u8 list"
  SDL_GetWindowWMInfo :: "pointer \<Rightarrow> u8 list \<Rightarrow> int \<times> u8 list"

text \<open>
  A test double of the binding: the window-manager-info query reports \<open>ok\<close> and writes
  \<open>bytes\<close>; window creation returns \<open>raw\<close> and view creation \<open>view\<close>.
\<close>

definition stub_sdl2 :: "pointer \<Rightarrow> pointer \<Rightarrow> int \<Rightarrow> u8 list \<Rightarrow> sdl2" where
  "stub_sdl2 raw view ok bytes =
     \<lparr>SDL_CreateWindow = (\<lambda>title x y w h flags. raw),
      SDL_Metal_CreateView = (\<lambda>win. view),
      SDL_GetVersion = [2, 30, 10],
      SDL_GetWindowWMInfo = (\<lambda>win buf. (ok, bytes))\<rparr>"

text \<open>What a run does, in order: the foreign calls, the frames, the writes of the flag.\<close>

datatype action =
    Call_SDL_CreateWindow "u8 list" i32 i32 i32 i32 u32
  | Call_SDL_Metal_CreateView pointer
  | Call_SDL_PollEvent int
  | Assign_running bool
  | Render
  | Present
  | SetTimeout nat
  | Call_SDL_DestroyWindow pointer
  | Call_SDL_Quit
  | Deno_exit int

section \<open>Window and surface factory\<close>

text \<open>
  \<^verbatim>\<open>createSurface\<close>, the part before the branch on the operating system (the same in
  both files): the buffer after \<^verbatim>\<open>SDL_GetVersion\<close> and \<^verbatim>\<open>SDL_GetWindowWMInfo\<close>, or
  the error of a failed query.
\<close>

definition query_wm_info :: "sdl2 \<Rightarrow> pointer \<Rightarrow> error + u8 list" where
  "query_wm_info sdl window =
     (let wm_info = store (SDL_GetVersion sdl) wmInfoBuf;
          (ok, written) = SDL_GetWindowWMInfo sdl window wm_info
      in if ok = 0 then Inl (Error ''SDL_GetWindowWMInfo failed'')
         else Inr (store written wm_info))"

definition new_surface :: "string \<Rightarrow> pointer \<Rightarrow> pointer \<Rightarrow> int \<Rightarrow> int \<Rightarrow> surface" where
  "new_surface sys wh dh w h =
     \<lparr>system = sys, windowHandle = wh, displayHandle = dh, width = w, height = h\<rparr>"

text \<open>
  The subsystem discriminants, local constants of \<^verbatim>\<open>createSurface\<close> in the source.
\<close>

abbreviation SDL_SYSWM_WINDOWS :: u32 where "SDL_SYSWM_WINDOWS \<equiv> 1"
abbreviation SDL_SYSWM_X11 :: u32 where "SDL_SYSWM_X11 \<equiv> 2"
abbreviation SDL_SYSWM_COCOA :: u32 where "SDL_SYSWM_COCOA \<equiv> 4"
abbreviation SDL_SYSWM_WAYLAND :: u32 where "SDL_SYSWM_WAYLAND \<equiv> 6"
abbreviation SDL_SYSWM_WINRT :: u32 where "SDL_SYSWM_WINRT \<equiv> 8"

text \<open>\<^verbatim>\<open>main.ts\<close>, lines 116 to 179: the branch of each operating system.\<close>

definition surface_darwin_main ::
  "u8 list \<Rightarrow> u32 \<Rightarrow> pointer \<Rightarrow> int \<Rightarrow> int \<Rightarrow> error + surface" where
  "surface_darwin_main view subsystem metalView w h =
     (case getPointer view (4 + 4) of
        None \<Rightarrow> Inl OutOfBoundsRead
      | Some nsView \<Rightarrow>
          if subsystem \<noteq> SDL_SYSWM_COCOA then Inl (Error ''Expected SDL_SYSWM_COCOA on macOS'')
          else Inr (new_surface ''cocoa'' nsView metalView w h))"

definition surface_windows_main ::
  "u8 list \<Rightarrow> u32 \<Rightarrow> int \<Rightarrow> int \<Rightarrow> error + surface" where
  "surface_windows_main view subsystem w h =
     (case getPointer view (4 + 4) of
        None \<Rightarrow> Inl OutOfBoundsRead
      | Some hwnd \<Rightarrow>
          if subsystem = SDL_SYSWM_WINDOWS then
            (case getPointer view (4 + 4 + 8 + 8) of
               None \<Rightarrow> Inl OutOfBoundsRead
             | Some hinstance \<Rightarrow> Inr (new_surface ''win32'' hwnd hinstance w h))
          else if subsystem = SDL_SYSWM_WINRT then Inl (Error ''WinRT is not supported'')
          else Inl (Error ''Expected SDL_SYSWM_WINDOWS on Windows''))"

definition surface_linux ::
  "u8 list \<Rightarrow> u32 \<Rightarrow> int \<Rightarrow> int \<Rightarrow> error + surface" where
  "surface_linux view subsystem w h =
     (case getPointer view (4 + 4) of
        None \<Rightarrow> Inl OutOfBoundsRead
      | Some display \<Rightarrow>
          (case getPointer view (4 + 4 + 8) of
             None \<Rightarrow> Inl OutOfBoundsRead
           | Some surface \<Rightarrow>
               if subsystem = SDL_SYSWM_X11 then Inr (new_surface ''x11'' surface display w h)
               else if subsystem = SDL_SYSWM_WAYLAND then
                 Inr (new_surface ''wayland'' surface display w h)
               else Inl (Error ''Expected SDL_SYSWM_X11 or SDL_SYSWM_WAYLAND on Linux'')))"

text \<open>\<^verbatim>\<open>main.ts\<close>, from line 113: what \<^verbatim>\<open>createSurface\<close> does with the filled buffer.\<close>

definition decode_main ::
  "build_os \<Rightarrow> u8 list \<Rightarrow> pointer \<Rightarrow> int \<Rightarrow> int \<Rightarrow> error + surface" where
  "decode_main BUILD_OS view metalView w h =
     (case getUint32 view 4 of
        None \<Rightarrow> Inl OutOfBoundsRead
      | Some subsystem \<Rightarrow>
          if BUILD_OS = Darwin then surface_darwin_main view subsystem metalView w h
          else if BUILD_OS = Windows then surface_windows_main view subsystem w h
          else if BUILD_OS = Linux then surface_linux view subsystem w h
          else Inl (Error ''Unsupported platform''))"

definition createSurface_main ::
  "build_os \<Rightarrow> sdl2 \<Rightarrow> pointer \<Rightarrow> pointer \<Rightarrow> int \<Rightarrow> int \<Rightarrow> error + surface" where
  "createSurface_main BUILD_OS sdl window metalView w h =
     (case query_wm_info sdl window of
        Inl e \<Rightarrow> Inl e
      | Inr view \<Rightarrow> decode_main BUILD_OS view metalView w h)"

text \<open>
  \<^verbatim>\<open>r3f.tsx\<close>, lines 159 to 211. The branches of macOS and Windows do not look at
  \<open>subsystem\<close>; the branch of Linux is the one of \<^verbatim>\<open>main.ts\<close>.
\<close>

definition surface_darwin_r3f ::
  "u8 list \<Rightarrow> pointer \<Rightarrow> int \<Rightarrow> int \<Rightarrow> error + surface" where
  "surface_darwin_r3f view metalView w h =
     (case getPointer view (4 + 4) of
        None \<Rightarrow> Inl OutOfBoundsRead
      | Some nsView \<Rightarrow> Inr (new_surface ''cocoa'' nsView metalView w h))"

definition surface_windows_r3f ::
  "u8 list \<Rightarrow> int \<Rightarrow> int \<Rightarrow> error + surface" where
  "surface_windows_r3f view w h =
     (case getPointer view (4 + 4) of
        None \<Rightarrow> Inl OutOfBoundsRead
      | Some hwnd \<Rightarrow>
          (case getPointer view (4 + 4 + 8 + 8) of
             None \<Rightarrow> Inl OutOfBoundsRead
           | Some hinstance \<Rightarrow> Inr (new_surface ''win32'' hwnd hinstance w h)))"

definition decode_r3f ::
  "build_os \<Rightarrow> u8 list \<Rightarrow> pointer \<Rightarrow> int \<Rightarrow> int \<Rightarrow> error + surface" where
  "decode_r3f BUILD_OS view metalView w h =
     (case getUint32 view 4 of
        None \<Rightarrow> Inl OutOfBoundsRead
      | Some subsystem \<Rightarrow>
          if BUILD_OS = Darwin then surface_darwin_r3f view metalView w h
          else if BUILD_OS = Windows then surface_windows_r3f view w h
          else if BUILD_OS = Linux then surface_linux view subsystem w h
          else Inl (Error ''Unsupported platform''))"

definition createSurface_r3f ::
  "build_os \<Rightarrow> sdl2 \<Rightarrow> pointer \<Rightarrow> pointer \<Rightarrow> int \<Rightarrow> int \<Rightarrow> error + surface" where
  "createSurface_r3f BUILD_OS sdl window metalView w h =
     (case query_wm_info sdl window of
        Inl e \<Rightarrow> Inl e
      | Inr view \<Rightarrow> decode_r3f BUILD_OS view metalView w h)"

text \<open>
  \<^verbatim>\<open>createWindow\<close> (the same in both files), with the foreign calls it makes.
  \<^verbatim>\<open>asCString\<close> appends the terminating zero to the encoded title. The width and the
  height go to \<^verbatim>\<open>i32\<close> parameters of \<^verbatim>\<open>SDL_CreateWindow\<close> and are \<^verbatim>\<open>i32\<close> values
  here (the program passes 800 and 600); the position sentinel \<^verbatim>\<open>0x2FFF0000\<close> is one
  too.
\<close>

definition asCString :: "string \<Rightarrow> u8 list" where
  "asCString text = map of_char text @ [0]"

record window_and_view =
  window :: pointer
  metalView :: pointer

definition createWindow ::
  "build_os \<Rightarrow> sdl2 \<Rightarrow> string \<Rightarrow> i32 \<Rightarrow> i32 \<Rightarrow> (error + window_and_view) \<times> action list" where
  "createWindow BUILD_OS sdl title w h =
     (let flags = SDL_WINDOW_SHOWN OR SDL_WINDOW_RESIZABLE;
          raw = SDL_CreateWindow sdl (asCString title) 0x2FFF0000 0x2FFF0000 w h flags;
          calls = [Call_SDL_CreateWindow (asCString title) 0x2FFF0000 0x2FFF0000 w h flags]
      in if raw = 0 then (Inl (Error ''SDL_CreateWindow failed''), calls)
         else if BUILD_OS = Darwin then
           (Inr \<lparr>window = raw, metalView = SDL_Metal_CreateView sdl raw\<rparr>,
            calls @ [Call_SDL_Metal_CreateView raw])
         else (Inr \<lparr>window = raw, metalView = 0\<rparr>, calls))"

section \<open>Library resolution\<close>

text \<open>
  \<^verbatim>\<open>resolveSdl2Library\<close> (the same in both files). \<open>stat_ok path\<close> says that
  \<^verbatim>\<open>Deno.statSync(path)\<close> returns; when it throws, whatever the reason, the empty
  \<^verbatim>\<open>catch\<close> goes on to the next candidate. The second component is the paths probed,
  in order.
\<close>

definition candidates :: "string list" where
  "candidates =
     [''/opt/homebrew/opt/sdl2/lib/libSDL2.dylib'',
      ''/opt/homebrew/lib/libSDL2.dylib'',
      ''/usr/local/opt/sdl2/lib/libSDL2.dylib'',
      ''/usr/local/lib/libSDL2.dylib'',
      ''SDL2'']"

fun probe :: "(string \<Rightarrow> bool) \<Rightarrow> string list \<Rightarrow> string list \<Rightarrow> string \<times> string list" where
  "probe stat_ok [] probed = (''SDL2'', probed)"
| "probe stat_ok (candidate # rest) probed =
     (if stat_ok candidate then (candidate, probed @ [candidate])
      else probe stat_ok rest (probed @ [candidate]))"

definition resolveSdl2Library :: "build_os \<Rightarrow> (string \<Rightarrow> bool) \<Rightarrow> string \<times> string list" where
  "resolveSdl2Library BUILD_OS stat_ok =
     (if BUILD_OS \<noteq> Darwin then (''SDL2'', []) else probe stat_ok candidates [])"

section \<open>Event and render loop\<close>

text \<open>
  The state of the loop: the flag \<^verbatim>\<open>running\<close>, the counter \<^verbatim>\<open>frame\<close> (of
  \<^verbatim>\<open>main.ts\<close> only; \<^verbatim>\<open>r3f.tsx\<close> has none and leaves it alone), the scratch buffer
  of the events, the events waiting in the native queue (each the bytes
  \<^verbatim>\<open>SDL_PollEvent\<close> writes for it), and what the run has done so far.
\<close>

record loop_state =
  running :: bool
  frame :: nat
  event :: "u8 list"
  queue :: "u8 list list"
  trace :: "action list"

definition initial :: loop_state where
  "initial = \<lparr>running = True, frame = 0, event = eventBuf, queue = [], trace = []\<rparr>"

definition did :: "action list \<Rightarrow> loop_state \<Rightarrow> loop_state" where
  "did as s = s\<lparr>trace := trace s @ as\<rparr>"

text \<open>
  The inner loop, the same in both files:
  \<^verbatim>\<open>while (SDL_PollEvent(event) === 1) { if (getUint32() === SDL_QUIT) { running = false; break; } }\<close>
  on the events \<open>q\<close> waiting in the native queue. The first component is what left the
  loop abnormally, if anything did.
\<close>

fun pump :: "u8 list list \<Rightarrow> loop_state \<Rightarrow> error option \<times> loop_state" where
  "pump [] s = (None, did [Call_SDL_PollEvent 0] (s\<lparr>queue := []\<rparr>))"
| "pump (e # q) s =
     (let s1 = did [Call_SDL_PollEvent 1] (s\<lparr>queue := q, event := store e (event s)\<rparr>)
      in case getUint32 (event s1) 0 of
           None \<Rightarrow> (Some OutOfBoundsRead, s1)
         | Some type \<Rightarrow>
             if type = SDL_QUIT then (None, did [Assign_running False] (s1\<lparr>running := False\<rparr>))
             else pump q s1)"

text \<open>
  What the world does during one iteration of \<^verbatim>\<open>main.ts\<close>: the events that have
  arrived in the native queue when the iteration polls, and the message of what
  \<^verbatim>\<open>surface.present()\<close> throws, if it throws.
\<close>

record main_env =
  arrivals :: "u8 list list"
  present_throws :: "string option"

text \<open>
  The body of \<^verbatim>\<open>while (running)\<close> in \<^verbatim>\<open>main.ts\<close>, lines 285 to 303: the drain
  pass, the frame tick (the rotation of the cube and \<^verbatim>\<open>renderer.render\<close>, taken to
  return), the present call, the counter. Nothing is caught: what
  \<^verbatim>\<open>surface.present()\<close> throws leaves the loop. The messages to the console are left
  out.
\<close>

definition body_main :: "main_env \<Rightarrow> loop_state \<Rightarrow> error option \<times> loop_state" where
  "body_main env s =
     (case pump (queue s @ arrivals env) s of
        (Some e, s1) \<Rightarrow> (Some e, s1)
      | (None, s1) \<Rightarrow>
          (let s2 = did [Render, Present] s1
           in case present_throws env of
                Some m \<Rightarrow> (Some (Error m), s2)
              | None \<Rightarrow> (None, s2\<lparr>frame := frame s2 + 1\<rparr>)))"

text \<open>
  How a run over a finite script of iterations ends: the program ran to its last
  statement, or an error left it uncaught, or the script ended with the loop still
  running.
\<close>

datatype outcome = Finished loop_state | Uncaught error loop_state | Still_running loop_state

fun loop_main :: "main_env list \<Rightarrow> loop_state \<Rightarrow> outcome" where
  "loop_main [] s = (if running s then Still_running s else Finished s)"
| "loop_main (env # envs) s =
     (if \<not> running s then Finished s
      else case body_main env s of
             (Some e, s1) \<Rightarrow> Uncaught e s1
           | (None, s1) \<Rightarrow> loop_main envs s1)"

text \<open>\<^verbatim>\<open>main.ts\<close> from line 281 to its end: the loop, then the shutdown.\<close>

definition run_main :: "pointer \<Rightarrow> main_env list \<Rightarrow> outcome" where
  "run_main win envs =
     (case loop_main envs initial of
        Finished s \<Rightarrow> Finished (did [Call_SDL_DestroyWindow win, Call_SDL_Quit] s)
      | Uncaught e s \<Rightarrow> Uncaught e s
      | Still_running s \<Rightarrow> Still_running s)"

text \<open>
  The callback \<^verbatim>\<open>r3f.tsx\<close> registers with \<^verbatim>\<open>addAfterEffect\<close>, lines 275 to 282, run
  by the scene layer after each frame it renders.
\<close>

definition afterEffect :: "string option \<Rightarrow> loop_state \<Rightarrow> loop_state" where
  "afterEffect present_result s =
     (case present_result of
        None \<Rightarrow> did [Present] s
      | Some m \<Rightarrow> did [Assign_running False] ((did [Present] s)\<lparr>running := False\<rparr>))"

text \<open>
  The frames of the scene layer that run while the loop of \<^verbatim>\<open>r3f.tsx\<close> is suspended,
  each given by the message of what its \<^verbatim>\<open>surface.present()\<close> throws, if it throws.
\<close>

fun frames_r3f :: "string option list \<Rightarrow> loop_state \<Rightarrow> loop_state" where
  "frames_r3f [] s = s"
| "frames_r3f (p # ps) s = frames_r3f ps (afterEffect p (did [Render] s))"

record r3f_env =
  arrived :: "u8 list list"
  frames :: "string option list"

text \<open>
  The body of \<^verbatim>\<open>while (running)\<close> in \<^verbatim>\<open>r3f.tsx\<close>, lines 314 to 325, up to the
  point where \<^verbatim>\<open>await new Promise(r => setTimeout(r, 1))\<close> suspends it.
\<close>

definition body_r3f :: "u8 list list \<Rightarrow> loop_state \<Rightarrow> error option \<times> loop_state" where
  "body_r3f arr s =
     (case pump (queue s @ arr) s of
        (Some OutOfBoundsRead, s1) \<Rightarrow> (Some OutOfBoundsRead, s1)
      | (Some (Error m), s1) \<Rightarrow>
          (None, did [SetTimeout 1] (did [Assign_running False] (s1\<lparr>running := False\<rparr>)))
      | (None, s1) \<Rightarrow> (None, did [SetTimeout 1] s1))"

fun loop_r3f :: "r3f_env list \<Rightarrow> loop_state \<Rightarrow> outcome" where
  "loop_r3f [] s = (if running s then Still_running s else Finished s)"
| "loop_r3f (env # envs) s =
     (if \<not> running s then Finished s
      else case body_r3f (arrived env) s of
             (Some e, s1) \<Rightarrow> Uncaught e s1
           | (None, s1) \<Rightarrow> loop_r3f envs (frames_r3f (frames env) s1))"

text \<open>\<^verbatim>\<open>r3f.tsx\<close> from line 312 to its end.\<close>

definition run_r3f :: "pointer \<Rightarrow> r3f_env list \<Rightarrow> outcome" where
  "run_r3f win envs =
     (case loop_r3f envs initial of
        Finished s \<Rightarrow> Finished (did [Call_SDL_DestroyWindow win, Call_SDL_Quit, Deno_exit 0] s)
      | Uncaught e s \<Rightarrow> Uncaught e s
      | Still_running s \<Rightarrow> Still_running s)"

text \<open>The state in which a run ended, and the part of a trace after the flag was cleared.\<close>

fun final :: "outcome \<Rightarrow> loop_state" where
  "final (Finished s) = s"
| "final (Uncaught e s) = s"
| "final (Still_running s) = s"


fun is_poll :: "action \<Rightarrow> bool" where
  "is_poll (Call_SDL_PollEvent r) = True"
| "is_poll a = False"

section \<open>The decoder reads what the encoder wrote\<close>

lemma le_word_to_le: "(le_word (to_le n w) :: 'a::len word) = take_bit (8 * n) w"
proof (induction n arbitrary: w)
  case 0
  show ?case by simp
next
  case (Suc n)
  show ?case
    apply (simp add: Suc)
    apply (rule bit_word_eqI)
    apply (auto simp: bit_simps)
    done
qed

lemma le_bytes32_to_le: "le_bytes32 w = to_le 4 w"
  by (simp add: le_bytes32_def eval_nat_numeral)

lemma le_bytes64_to_le: "le_bytes64 w = to_le 8 w"
  by (simp add: le_bytes64_def eval_nat_numeral)

lemma le_word_le_bytes32 [simp]: "le_word (le_bytes32 w) = w"
  by (simp add: le_bytes32_to_le le_word_to_le take_bit_word_eq_self)

lemma le_word_le_bytes64 [simp]: "le_word (le_bytes64 w) = w"
  by (simp add: le_bytes64_to_le le_word_to_le take_bit_word_eq_self)

lemma length_le_bytes32 [simp]: "length (le_bytes32 w) = 4"
  by (simp add: le_bytes32_def)

lemma length_le_bytes64 [simp]: "length (le_bytes64 w) = 8"
  by (simp add: le_bytes64_def)

lemma length_store [simp]: "length (store bytes buf) = length buf"
  by (simp add: store_def)

lemma take_drop_store:
  "off + n \<le> length bytes \<Longrightarrow> off + n \<le> length buf \<Longrightarrow>
   take n (drop off (store bytes buf)) = take n (drop off bytes)"
  by (auto simp: store_def drop_take min_def)

lemma length_wmInfoBuf [simp]: "length wmInfoBuf = 519"
  by (simp add: wmInfoBuf_def sizeOfSDL_SysWMInfo_def)

lemma length_eventBuf [simp]: "length eventBuf = 56"
  by (simp add: eventBuf_def sizeOfEvent_def)

lemma length_synthetic:
  "length (synthetic_wm_info v0 v1 v2 v3 d a b c rest) = 32 + length rest"
  by (simp add: synthetic_wm_info_def)

lemma synthetic_fields:
  "take 4 (drop 4 (synthetic_wm_info v0 v1 v2 v3 d a b c rest)) = le_bytes32 d"
  "take 8 (drop 8 (synthetic_wm_info v0 v1 v2 v3 d a b c rest)) = le_bytes64 a"
  "take 8 (drop 16 (synthetic_wm_info v0 v1 v2 v3 d a b c rest)) = le_bytes64 b"
  "take 8 (drop 24 (synthetic_wm_info v0 v1 v2 v3 d a b c rest)) = le_bytes64 c"
  by (simp_all add: synthetic_wm_info_def)

lemma stored_synthetic_reads:
  assumes "length buf = 519"
  shows "getUint32 (store (synthetic_wm_info v0 v1 v2 v3 d a b c rest) buf) 4 = Some d"
    and "getPointer (store (synthetic_wm_info v0 v1 v2 v3 d a b c rest) buf) 8 = Some a"
    and "getPointer (store (synthetic_wm_info v0 v1 v2 v3 d a b c rest) buf) 16 = Some b"
    and "getPointer (store (synthetic_wm_info v0 v1 v2 v3 d a b c rest) buf) 24 = Some c"
  using assms
  by (simp_all add: getUint32_def getPointer_def take_drop_store length_synthetic synthetic_fields)

section \<open>Surface creation on a known record\<close>

lemma query_wm_info_cases:
  "query_wm_info sdl win =
     (if fst (SDL_GetWindowWMInfo sdl win (store (SDL_GetVersion sdl) wmInfoBuf)) = 0
      then Inl (Error ''SDL_GetWindowWMInfo failed'')
      else Inr (store (snd (SDL_GetWindowWMInfo sdl win (store (SDL_GetVersion sdl) wmInfoBuf)))
                  (store (SDL_GetVersion sdl) wmInfoBuf)))"
  by (simp add: query_wm_info_def Let_def split: prod.splits)

lemma query_wm_info_length:
  "query_wm_info sdl win = Inr view \<Longrightarrow> length view = 519"
  by (auto simp: query_wm_info_cases split: if_splits)

lemma query_wm_info_synthetic:
  assumes "SDL_GetWindowWMInfo sdl win (store (SDL_GetVersion sdl) wmInfoBuf) =
             (ok, synthetic_wm_info v0 v1 v2 v3 d a b c rest)"
    and "ok \<noteq> 0"
  shows "query_wm_info sdl win =
           Inr (store (synthetic_wm_info v0 v1 v2 v3 d a b c rest)
                  (store (SDL_GetVersion sdl) wmInfoBuf))"
  using assms by (simp add: query_wm_info_cases)

lemma createSurface_main_synthetic:
  assumes "SDL_GetWindowWMInfo sdl win (store (SDL_GetVersion sdl) wmInfoBuf) =
             (ok, synthetic_wm_info v0 v1 v2 v3 d a b c rest)"
    and "ok \<noteq> 0"
  shows "createSurface_main Darwin sdl win mv w h =
           (if d = 4 then Inr (new_surface ''cocoa'' a mv w h)
            else Inl (Error ''Expected SDL_SYSWM_COCOA on macOS''))"
    and "createSurface_main Windows sdl win mv w h =
           (if d = 1 then Inr (new_surface ''win32'' a c w h)
            else if d = 8 then Inl (Error ''WinRT is not supported'')
            else Inl (Error ''Expected SDL_SYSWM_WINDOWS on Windows''))"
    and "createSurface_main Linux sdl win mv w h =
           (if d = 2 then Inr (new_surface ''x11'' b a w h)
            else if d = 6 then Inr (new_surface ''wayland'' b a w h)
            else Inl (Error ''Expected SDL_SYSWM_X11 or SDL_SYSWM_WAYLAND on Linux''))"
  by (simp_all add: createSurface_main_def decode_main_def query_wm_info_synthetic [OF assms]
        stored_synthetic_reads surface_darwin_main_def surface_windows_main_def surface_linux_def)

lemma createSurface_r3f_synthetic:
  assumes "SDL_GetWindowWMInfo sdl win (store (SDL_GetVersion sdl) wmInfoBuf) =
             (ok, synthetic_wm_info v0 v1 v2 v3 d a b c rest)"
    and "ok \<noteq> 0"
  shows "createSurface_r3f Darwin sdl win mv w h = Inr (new_surface ''cocoa'' a mv w h)"
    and "createSurface_r3f Windows sdl win mv w h = Inr (new_surface ''win32'' a c w h)"
    and "createSurface_r3f Linux sdl win mv w h =
           (if d = 2 then Inr (new_surface ''x11'' b a w h)
            else if d = 6 then Inr (new_surface ''wayland'' b a w h)
            else Inl (Error ''Expected SDL_SYSWM_X11 or SDL_SYSWM_WAYLAND on Linux''))"
  by (simp_all add: createSurface_r3f_def decode_r3f_def query_wm_info_synthetic [OF assms]
        stored_synthetic_reads surface_darwin_r3f_def surface_windows_r3f_def surface_linux_def)

lemma stub_sdl2_reply:
  "SDL_GetWindowWMInfo (stub_sdl2 raw view ok bytes) win buf = (ok, bytes)"
  by (simp add: stub_sdl2_def)

text \<open>
  C5. On a synthetic window-manager-info record with known field values, the decoder
  reads the subsystem discriminant as the little-endian 32-bit value at offset 4, whatever
  that value is, and the handles from the pointer-sized slots at the documented offsets,
  in both files: Cocoa, the view from offset 8; Win32, the window handle from offset 8
  and the instance handle from offset 24 (the slot at 16 is the gap); X11 and Wayland,
  the display from offset 8 and the surface from offset 16. The surface that
  \<^verbatim>\<open>createSurface\<close> returns holds exactly these handles, and a discriminant that
  differs from the expected one in any of its four bytes is told apart.
\<close>

theorem struct_decoder_offsets:
  fixes d :: u32 and a b c mv :: pointer and w h :: int
  assumes "SDL_GetWindowWMInfo sdl win (store (SDL_GetVersion sdl) wmInfoBuf) =
             (ok, synthetic_wm_info v0 v1 v2 v3 d a b c rest)"
    and "ok \<noteq> 0"
  shows "getUint32 (store (synthetic_wm_info v0 v1 v2 v3 d a b c rest)
                      (store (SDL_GetVersion sdl) wmInfoBuf)) 4 = Some d \<and>
         getPointer (store (synthetic_wm_info v0 v1 v2 v3 d a b c rest)
                      (store (SDL_GetVersion sdl) wmInfoBuf)) 8 = Some a \<and>
         getPointer (store (synthetic_wm_info v0 v1 v2 v3 d a b c rest)
                      (store (SDL_GetVersion sdl) wmInfoBuf)) (8 + 8) = Some b \<and>
         getPointer (store (synthetic_wm_info v0 v1 v2 v3 d a b c rest)
                      (store (SDL_GetVersion sdl) wmInfoBuf)) (8 + 8 + 8) = Some c \<and>
         createSurface_main Darwin sdl win mv w h =
           (if d = SDL_SYSWM_COCOA then
              Inr \<lparr>system = ''cocoa'', windowHandle = a, displayHandle = mv,
                   width = w, height = h\<rparr>
            else Inl (Error ''Expected SDL_SYSWM_COCOA on macOS'')) \<and>
         createSurface_main Windows sdl win mv w h =
           (if d = SDL_SYSWM_WINDOWS then
              Inr \<lparr>system = ''win32'', windowHandle = a, displayHandle = c,
                   width = w, height = h\<rparr>
            else if d = SDL_SYSWM_WINRT then Inl (Error ''WinRT is not supported'')
            else Inl (Error ''Expected SDL_SYSWM_WINDOWS on Windows'')) \<and>
         createSurface_main Linux sdl win mv w h =
           (if d = SDL_SYSWM_X11 then
              Inr \<lparr>system = ''x11'', windowHandle = b, displayHandle = a,
                   width = w, height = h\<rparr>
            else if d = SDL_SYSWM_WAYLAND then
              Inr \<lparr>system = ''wayland'', windowHandle = b, displayHandle = a,
                   width = w, height = h\<rparr>
            else Inl (Error ''Expected SDL_SYSWM_X11 or SDL_SYSWM_WAYLAND on Linux'')) \<and>
         createSurface_r3f Darwin sdl win mv w h =
           Inr \<lparr>system = ''cocoa'', windowHandle = a, displayHandle = mv,
                width = w, height = h\<rparr> \<and>
         createSurface_r3f Windows sdl win mv w h =
           Inr \<lparr>system = ''win32'', windowHandle = a, displayHandle = c,
                width = w, height = h\<rparr> \<and>
         createSurface_r3f Linux sdl win mv w h =
           (if d = SDL_SYSWM_X11 then
              Inr \<lparr>system = ''x11'', windowHandle = b, displayHandle = a,
                   width = w, height = h\<rparr>
            else if d = SDL_SYSWM_WAYLAND then
              Inr \<lparr>system = ''wayland'', windowHandle = b, displayHandle = a,
                   width = w, height = h\<rparr>
            else Inl (Error ''Expected SDL_SYSWM_X11 or SDL_SYSWM_WAYLAND on Linux''))"
proof -
  have len: "length (store (SDL_GetVersion sdl) wmInfoBuf) = 519"
    by simp
  note reads = stored_synthetic_reads [OF len, of v0 v1 v2 v3 d a b c rest]
  note m = createSurface_main_synthetic [OF assms, of mv w h, unfolded new_surface_def]
  note r = createSurface_r3f_synthetic [OF assms, of mv w h, unfolded new_surface_def]
  have "(8::nat) + 8 = 16" "(8::nat) + 8 + 8 = 24" by simp_all
  then show ?thesis
    by (simp only: reads m r)
qed

theorem struct_decoder_offsets_witness:
  "synthetic_wm_info 2 30 10 0 0x104 0x1000 0x2000 0x3000 [0xAA] =
     [2, 30, 10, 0,  4, 1, 0, 0,  0, 0x10, 0, 0, 0, 0, 0, 0,  0, 0x20, 0, 0, 0, 0, 0, 0,
      0, 0x30, 0, 0, 0, 0, 0, 0,  0xAA] \<and>
   createSurface_main Darwin
     (stub_sdl2 1 2 1 (synthetic_wm_info 2 30 10 0 0x104 0x1000 0x2000 0x3000 [0xAA])) 1 2 800 600
     = Inl (Error ''Expected SDL_SYSWM_COCOA on macOS'') \<and>
   createSurface_main Darwin
     (stub_sdl2 1 2 1 (synthetic_wm_info 2 30 10 0 4 0x1000 0x2000 0x3000 [0xAA])) 1 2 800 600
     = Inr \<lparr>system = ''cocoa'', windowHandle = 0x1000, displayHandle = 2,
            width = 800, height = 600\<rparr> \<and>
   createSurface_r3f Windows
     (stub_sdl2 1 2 1 (synthetic_wm_info 2 30 10 0 1 0x1000 0x2000 0x3000 [0xAA])) 1 0 800 600
     = Inr \<lparr>system = ''win32'', windowHandle = 0x1000, displayHandle = 0x3000,
            width = 800, height = 600\<rparr> \<and>
   createSurface_main Linux
     (stub_sdl2 1 2 1 (synthetic_wm_info 2 30 10 0 2 0x1000 0x2000 0x3000 [0xAA])) 1 0 800 600
     = Inr \<lparr>system = ''x11'', windowHandle = 0x2000, displayHandle = 0x1000,
            width = 800, height = 600\<rparr> \<and>
   createSurface_r3f Linux
     (stub_sdl2 1 2 1 (synthetic_wm_info 2 30 10 0 6 0x1000 0x2000 0x3000 [0xAA])) 1 0 800 600
     = Inr \<lparr>system = ''wayland'', windowHandle = 0x2000, displayHandle = 0x1000,
            width = 800, height = 600\<rparr>"
proof -
  have ok: "(1::int) \<noteq> 0" by simp
  have bytes: "synthetic_wm_info 2 30 10 0 0x104 0x1000 0x2000 0x3000 [0xAA] =
     [2, 30, 10, 0,  4, 1, 0, 0,  0, 0x10, 0, 0, 0, 0, 0, 0,  0, 0x20, 0, 0, 0, 0, 0, 0,
      0, 0x30, 0, 0, 0, 0, 0, 0,  0xAA]"
    by (simp add: synthetic_wm_info_def le_bytes32_def le_bytes64_def)
  have other: "createSurface_main Darwin
     (stub_sdl2 1 2 1 (synthetic_wm_info 2 30 10 0 0x104 0x1000 0x2000 0x3000 [0xAA])) 1 2 800 600
     = Inl (Error ''Expected SDL_SYSWM_COCOA on macOS'')"
    using struct_decoder_offsets [OF stub_sdl2_reply ok, where d = "0x104"] by simp
  have cocoa: "createSurface_main Darwin
     (stub_sdl2 1 2 1 (synthetic_wm_info 2 30 10 0 4 0x1000 0x2000 0x3000 [0xAA])) 1 2 800 600
     = Inr \<lparr>system = ''cocoa'', windowHandle = 0x1000, displayHandle = 2,
            width = 800, height = 600\<rparr>"
    using struct_decoder_offsets [OF stub_sdl2_reply ok, where d = 4] by simp
  have win32: "createSurface_r3f Windows
     (stub_sdl2 1 2 1 (synthetic_wm_info 2 30 10 0 1 0x1000 0x2000 0x3000 [0xAA])) 1 0 800 600
     = Inr \<lparr>system = ''win32'', windowHandle = 0x1000, displayHandle = 0x3000,
            width = 800, height = 600\<rparr>"
    using struct_decoder_offsets [OF stub_sdl2_reply ok, where d = 1] by simp
  have x11: "createSurface_main Linux
     (stub_sdl2 1 2 1 (synthetic_wm_info 2 30 10 0 2 0x1000 0x2000 0x3000 [0xAA])) 1 0 800 600
     = Inr \<lparr>system = ''x11'', windowHandle = 0x2000, displayHandle = 0x1000,
            width = 800, height = 600\<rparr>"
    using struct_decoder_offsets [OF stub_sdl2_reply ok, where d = 2] by simp
  have wayland: "createSurface_r3f Linux
     (stub_sdl2 1 2 1 (synthetic_wm_info 2 30 10 0 6 0x1000 0x2000 0x3000 [0xAA])) 1 0 800 600
     = Inr \<lparr>system = ''wayland'', windowHandle = 0x2000, displayHandle = 0x1000,
            width = 800, height = 600\<rparr>"
    using struct_decoder_offsets [OF stub_sdl2_reply ok, where d = 6] by simp
  from bytes other cocoa win32 x11 wayland show ?thesis by blast
qed

text \<open>
  C2. A window-manager-info record whose discriminant is not the one of the compiled
  target must make surface creation fail. \<^verbatim>\<open>main.ts\<close> does so; \<^verbatim>\<open>r3f.tsx\<close> does not
  look at the discriminant on Windows and on macOS: on Windows with the discriminant 8
  (WinRT), and on macOS with the discriminant 0, its \<^verbatim>\<open>createSurface\<close> returns a
  Win32 and a Cocoa surface, where that of \<^verbatim>\<open>main.ts\<close> throws on the same records.
\<close>

theorem createSurface_r3f_takes_any_subsystem:
  "createSurface_r3f Windows
     (stub_sdl2 1 0 1 (synthetic_wm_info 2 30 10 0 8 0x1000 0x2000 0x3000 [])) 1 0 800 600
     = Inr (new_surface ''win32'' 0x1000 0x3000 800 600) \<and>
   createSurface_r3f Darwin
     (stub_sdl2 1 2 1 (synthetic_wm_info 2 30 10 0 0 0x1000 0x2000 0x3000 [])) 1 2 800 600
     = Inr (new_surface ''cocoa'' 0x1000 2 800 600) \<and>
   createSurface_main Windows
     (stub_sdl2 1 0 1 (synthetic_wm_info 2 30 10 0 8 0x1000 0x2000 0x3000 [])) 1 0 800 600
     = Inl (Error ''WinRT is not supported'') \<and>
   createSurface_main Darwin
     (stub_sdl2 1 2 1 (synthetic_wm_info 2 30 10 0 0 0x1000 0x2000 0x3000 [])) 1 2 800 600
     = Inl (Error ''Expected SDL_SYSWM_COCOA on macOS'')"
  by (simp add: createSurface_r3f_synthetic [OF stub_sdl2_reply]
       createSurface_main_synthetic [OF stub_sdl2_reply])

section \<open>The event pump\<close>

lemma did_simps [simp]:
  "running (did as s) = running s"
  "frame (did as s) = frame s"
  "event (did as s) = event s"
  "queue (did as s) = queue s"
  "trace (did as s) = trace s @ as"
  by (simp_all add: did_def)

lemma getUint32_event: "length buf = 56 \<Longrightarrow> getUint32 buf 0 = Some (le_word (take 4 buf))"
  by (simp add: getUint32_def)

lemma pump_cases:
  assumes "length (event s) = 56"
  shows "\<exists>new s'. pump q s = (None, s') \<and> length (event s') = 56 \<and> frame s' = frame s \<and>
           list_all is_poll new \<and>
           (running s' = running s \<and> trace s' = trace s @ new \<or>
            \<not> running s' \<and> trace s' = trace s @ new @ [Assign_running False])"
  using assms
proof (induction q arbitrary: s)
  case Nil
  have "pump [] s = (None, did [Call_SDL_PollEvent 0] (s\<lparr>queue := []\<rparr>))" by simp
  with Nil show ?case
    by (intro exI [of _ "[Call_SDL_PollEvent 0]"] exI [of _ "did [Call_SDL_PollEvent 0] (s\<lparr>queue := []\<rparr>)"]) simp
next
  case (Cons e q)
  let ?s1 = "did [Call_SDL_PollEvent 1] (s\<lparr>queue := q, event := store e (event s)\<rparr>)"
  have len: "length (event ?s1) = 56" using Cons.prems by simp
  then have rd: "getUint32 (event ?s1) 0 = Some (le_word (take 4 (event ?s1)))"
    by (rule getUint32_event)
  show ?case
  proof (cases "(le_word (take 4 (event ?s1)) :: u32) = SDL_QUIT")
    case True
    let ?s' = "did [Assign_running False] (?s1\<lparr>running := False\<rparr>)"
    have "pump (e # q) s = (None, ?s')"
      using rd True by (simp add: Let_def)
    then show ?thesis using Cons.prems
      by (intro exI [of _ "[Call_SDL_PollEvent 1]"] exI [of _ ?s']) simp
  next
    case False
    from Cons.IH [OF len] obtain new s' where
      p: "pump q ?s1 = (None, s')" and l: "length (event s') = 56" and f: "frame s' = frame ?s1"
      and n: "list_all is_poll new"
      and t: "running s' = running ?s1 \<and> trace s' = trace ?s1 @ new \<or>
              \<not> running s' \<and> trace s' = trace ?s1 @ new @ [Assign_running False]"
      by blast
    have "pump (e # q) s = (None, s')"
      using rd False p by (simp add: Let_def)
    then show ?thesis using l f n t
      by (intro exI [of _ "Call_SDL_PollEvent 1 # new"] exI [of _ s']) auto
  qed
qed

lemma pump_stopped: "\<not> running s \<Longrightarrow> \<not> running (snd (pump q s))"
  by (induction q arbitrary: s) (auto simp: Let_def split: option.splits)

lemma pump_trace_set:
  "set (trace (snd (pump q s))) \<subseteq> set (trace s) \<union> range Call_SDL_PollEvent \<union> {Assign_running False}"
proof (induction q arbitrary: s)
  case Nil
  show ?case by auto
next
  case (Cons e q)
  let ?s1 = "did [Call_SDL_PollEvent 1] (s\<lparr>queue := q, event := store e (event s)\<rparr>)"
  have "set (trace ?s1) \<subseteq> set (trace s) \<union> range Call_SDL_PollEvent" by auto
  with Cons.IH [of ?s1] show ?case
    by (auto simp: Let_def split: option.splits)
qed


lemma store_full: "length bytes = length buf \<Longrightarrow> store bytes buf = bytes"
  by (simp add: store_def)

text \<open>
  C4. A drain pass over non-quit events followed by a quit event (each a 56-byte record,
  the quit one with 0x100 in the 32 bits at offset 0) polls every one of them, clears the
  flag once, at the quit event, and leaves the inner loop there: the events behind the
  quit event stay in the queue, and no further poll is made.
\<close>

theorem drain_until_quit:
  assumes "\<forall>e\<in>set pre. length e = sizeOfEvent \<and> getUint32 e 0 \<noteq> Some SDL_QUIT"
    and "length quit = sizeOfEvent"
    and "getUint32 quit 0 = Some SDL_QUIT"
    and "length (event s) = sizeOfEvent"
    and "running s"
  shows "pump (pre @ quit # rest) s =
           (None, s\<lparr>running := False, event := quit, queue := rest,
                    trace := trace s @ replicate (length pre) (Call_SDL_PollEvent 1) @
                               [Call_SDL_PollEvent 1, Assign_running False]\<rparr>)"
  using assms(1,4,5)
proof (induction pre arbitrary: s)
  case Nil
  then show ?case
    using assms(2,3) by (simp add: Let_def store_full did_def)
next
  case (Cons e pre)
  let ?s1 = "did [Call_SDL_PollEvent 1] (s\<lparr>queue := pre @ quit # rest, event := store e (event s)\<rparr>)"
  have e: "length e = sizeOfEvent" "getUint32 e 0 \<noteq> Some SDL_QUIT"
    using Cons.prems(1) by simp_all
  have ev: "event ?s1 = e"
    using e(1) Cons.prems(2) by (simp add: store_full)
  obtain type where ty: "getUint32 e 0 = Some type" "type \<noteq> SDL_QUIT"
    using e by (auto simp: getUint32_def sizeOfEvent_def)
  have "pump ((e # pre) @ quit # rest) s = pump (pre @ quit # rest) ?s1"
    using ty ev by (simp add: Let_def)
  also have "\<dots> = (None, ?s1\<lparr>running := False, event := quit, queue := rest,
                    trace := trace ?s1 @ replicate (length pre) (Call_SDL_PollEvent 1) @
                               [Call_SDL_PollEvent 1, Assign_running False]\<rparr>)"
    using Cons.prems e(1) by (intro Cons.IH) (simp_all add: ev)
  finally show ?case
    by (simp add: did_def)
qed

theorem drain_until_quit_witness:
  "pump ([[0, 3, 0, 0] @ replicate 52 0, [0, 4, 0, 0] @ replicate 52 0] @
          ([0, 1, 0, 0] @ replicate 52 0) # [[1, 3, 0, 0] @ replicate 52 0]) initial =
     (None, \<lparr>running = False, frame = 0, event = [0, 1, 0, 0] @ replicate 52 0,
             queue = [[1, 3, 0, 0] @ replicate 52 0],
             trace = [Call_SDL_PollEvent 1, Call_SDL_PollEvent 1, Call_SDL_PollEvent 1,
                      Assign_running False]\<rparr>)"
  using drain_until_quit [of "[[0, 3, 0, 0] @ replicate 52 0, [0, 4, 0, 0] @ replicate 52 0]"
      "[0, 1, 0, 0] @ replicate 52 0" initial "[[1, 3, 0, 0] @ replicate 52 0]"]
  by (simp add: sizeOfEvent_def getUint32_def SDL_QUIT_def initial_def)


section \<open>The loop bodies\<close>

lemma is_poll_not [simp]:
  "list_all is_poll new \<Longrightarrow> Assign_running b \<notin> set new"
  "list_all is_poll new \<Longrightarrow> Render \<notin> set new"
  "list_all is_poll new \<Longrightarrow> Present \<notin> set new"
  "list_all is_poll new \<Longrightarrow> SetTimeout n \<notin> set new"
  by (auto simp: list_all_iff)

lemma count_list_polls [simp]:
  "list_all is_poll new \<Longrightarrow> count_list new Render = 0"
  "list_all is_poll new \<Longrightarrow> count_list new Present = 0"
  by (induction new) auto


lemma body_main_cases:
  assumes "length (event s) = 56"
  shows "\<exists>new s1. body_main env s = (map_option Error (present_throws env), s1) \<and>
           length (event s1) = 56 \<and> list_all is_poll new \<and>
           (running s1 = running s \<and> trace s1 = trace s @ new @ [Render, Present] \<or>
            \<not> running s1 \<and> trace s1 = trace s @ new @ [Assign_running False, Render, Present])"
proof -
  from pump_cases [OF assms, of "queue s @ arrivals env"] obtain new s' where
    p: "pump (queue s @ arrivals env) s = (None, s')" and l: "length (event s') = 56"
    and n: "list_all is_poll new"
    and t: "running s' = running s \<and> trace s' = trace s @ new \<or>
            \<not> running s' \<and> trace s' = trace s @ new @ [Assign_running False]"
    by blast
  show ?thesis
  proof (cases "present_throws env")
    case None
    then have "body_main env s = (map_option Error (present_throws env),
                 (did [Render, Present] s')\<lparr>frame := frame s' + 1\<rparr>)"
      using p by (simp add: body_main_def Let_def)
    then show ?thesis using l n t
      by (intro exI [of _ new] exI [of _ "(did [Render, Present] s')\<lparr>frame := frame s' + 1\<rparr>"])
         auto
  next
    case (Some m)
    then have "body_main env s = (map_option Error (present_throws env), did [Render, Present] s')"
      using p by (simp add: body_main_def Let_def)
    then show ?thesis using l n t
      by (intro exI [of _ new] exI [of _ "did [Render, Present] s'"]) auto
  qed
qed

lemma body_r3f_cases:
  assumes "length (event s) = 56"
  shows "\<exists>new s1. body_r3f arr s = (None, s1) \<and>
           length (event s1) = 56 \<and> list_all is_poll new \<and>
           (running s1 = running s \<and> trace s1 = trace s @ new @ [SetTimeout 1] \<or>
            \<not> running s1 \<and> trace s1 = trace s @ new @ [Assign_running False, SetTimeout 1])"
proof -
  from pump_cases [OF assms, of "queue s @ arr"] obtain new s' where
    p: "pump (queue s @ arr) s = (None, s')" and l: "length (event s') = 56"
    and n: "list_all is_poll new"
    and t: "running s' = running s \<and> trace s' = trace s @ new \<or>
            \<not> running s' \<and> trace s' = trace s @ new @ [Assign_running False]"
    by blast
  have "body_r3f arr s = (None, did [SetTimeout 1] s')"
    using p by (simp add: body_r3f_def)
  then show ?thesis using l n t
    by (intro exI [of _ new] exI [of _ "did [SetTimeout 1] s'"]) auto
qed

lemma afterEffect_simps [simp]:
  "length (event (afterEffect p s)) = length (event s)"
  "\<not> running s \<Longrightarrow> \<not> running (afterEffect p s)"
  "set (trace (afterEffect p s)) \<subseteq> set (trace s) \<union> {Present, Assign_running False}"
  by (auto simp: afterEffect_def split: option.splits)

lemma frames_r3f_event [simp]: "length (event (frames_r3f ps s)) = length (event s)"
  by (induction ps arbitrary: s) auto

lemma frames_r3f_stopped: "\<not> running s \<Longrightarrow> \<not> running (frames_r3f ps s)"
  by (induction ps arbitrary: s) auto

lemma frames_r3f_trace_set:
  "set (trace (frames_r3f ps s)) \<subseteq> set (trace s) \<union> {Render, Present, Assign_running False}"
proof (induction ps arbitrary: s)
  case Nil
  show ?case by auto
next
  case (Cons p ps)
  have "set (trace (afterEffect p (did [Render] s))) \<subseteq> set (trace s) \<union> {Render, Present, Assign_running False}"
    using afterEffect_simps(3) [of p "did [Render] s"] by auto
  with Cons.IH [of "afterEffect p (did [Render] s)"] show ?case by auto
qed


section \<open>Whole runs\<close>

lemma loop_main_stopped: "\<not> running s \<Longrightarrow> loop_main envs s = Finished s"
  by (cases envs) auto

lemma loop_r3f_stopped: "\<not> running s \<Longrightarrow> loop_r3f envs s = Finished s"
  by (cases envs) auto


lemma initial_simps [simp]:
  "running initial" "trace initial = []" "length (event initial) = 56" "queue initial = []"
  "frame initial = 0"
  by (simp_all add: initial_def)



lemma body_main_trace_set:
  "set (trace (snd (body_main env s))) \<subseteq>
     set (trace s) \<union> range Call_SDL_PollEvent \<union> {Assign_running False, Render, Present}"
  using pump_trace_set [of "queue s @ arrivals env" s]
  by (auto simp: body_main_def Let_def split: prod.splits option.splits)

lemma body_r3f_trace_set:
  "set (trace (snd (body_r3f arr s))) \<subseteq>
     set (trace s) \<union> range Call_SDL_PollEvent \<union> {Assign_running False, SetTimeout 1}"
  using pump_trace_set [of "queue s @ arr" s]
  by (auto simp: body_r3f_def split: prod.splits option.splits error.splits)

lemma loop_main_trace_set:
  "set (trace (final (loop_main envs s))) \<subseteq>
     set (trace s) \<union> range Call_SDL_PollEvent \<union> {Assign_running False, Render, Present}"
proof (induction envs arbitrary: s)
  case Nil
  show ?case by auto
next
  case (Cons env envs)
  show ?case
  proof (cases "body_main env s")
    case (Pair r s1)
    with body_main_trace_set [of env s] have
      s1: "set (trace s1) \<subseteq>
             set (trace s) \<union> range Call_SDL_PollEvent \<union> {Assign_running False, Render, Present}"
      by simp
    show ?thesis
    proof (cases "running s \<and> r = None")
      case True
      with Pair have "loop_main (env # envs) s = loop_main envs s1" by simp
      with Cons.IH [of s1] s1 show ?thesis by auto
    next
      case False
      with Pair s1 show ?thesis by (cases r) auto
    qed
  qed
qed

lemma loop_r3f_trace_set:
  "set (trace (final (loop_r3f envs s))) \<subseteq>
     set (trace s) \<union> range Call_SDL_PollEvent \<union>
       {Assign_running False, Render, Present, SetTimeout 1}"
proof (induction envs arbitrary: s)
  case Nil
  show ?case by auto
next
  case (Cons env envs)
  show ?case
  proof (cases "body_r3f (arrived env) s")
    case (Pair r s1)
    with body_r3f_trace_set [of "arrived env" s] have
      s1: "set (trace s1) \<subseteq>
             set (trace s) \<union> range Call_SDL_PollEvent \<union> {Assign_running False, SetTimeout 1}"
      by simp
    show ?thesis
    proof (cases "running s \<and> r = None")
      case True
      with Pair have "loop_r3f (env # envs) s = loop_r3f envs (frames_r3f (frames env) s1)"
        by simp
      with Cons.IH [of "frames_r3f (frames env) s1"] s1 frames_r3f_trace_set [of "frames env" s1]
      show ?thesis by auto
    next
      case False
      with Pair s1 show ?thesis by (cases r) auto
    qed
  qed
qed

lemma run_main_trace_set:
  "set (trace (final (run_main win envs))) \<subseteq>
     range Call_SDL_PollEvent \<union>
       {Assign_running False, Render, Present, Call_SDL_DestroyWindow win, Call_SDL_Quit}"
  using loop_main_trace_set [of envs initial]
  by (auto simp: run_main_def split: outcome.splits)

lemma run_r3f_trace_set:
  "set (trace (final (run_r3f win envs))) \<subseteq>
     range Call_SDL_PollEvent \<union>
       {Assign_running False, Render, Present, SetTimeout 1,
        Call_SDL_DestroyWindow win, Call_SDL_Quit, Deno_exit 0}"
  using loop_r3f_trace_set [of envs initial]
  by (auto simp: run_r3f_def split: outcome.splits)


lemma size_consts: "sizeOfEvent = 56" "sizeOfSDL_SysWMInfo = 519"
  by (simp_all add: sizeOfEvent_def sizeOfSDL_SysWMInfo_def)








text \<open>
  C9. The flag is a boolean, and false is absorbing: the drain pass, the loop bodies of
  both files, the post-render hook and the frames of the scene layer all leave a false
  flag false, both loops end at once when they find it false, and no run of either file
  ever assigns true to it.
\<close>

theorem stopped_is_absorbing:
  assumes "\<not> running s"
  shows "\<not> running (snd (pump q s)) \<and> \<not> running (snd (body_main env s)) \<and>
         \<not> running (snd (body_r3f arr s)) \<and> \<not> running (afterEffect p s) \<and>
         \<not> running (frames_r3f ps s) \<and>
         loop_main envs s = Finished s \<and> loop_r3f envs' s = Finished s \<and>
         Assign_running True \<notin> set (trace (final (run_main win envs))) \<and>
         Assign_running True \<notin> set (trace (final (run_r3f win envs')))"
proof -
  have "\<not> running (snd (pump q s))"
    using assms by (rule pump_stopped)
  moreover have "\<not> running (snd (body_main env s))"
    using pump_stopped [OF assms, of "queue s @ arrivals env"]
    by (auto simp: body_main_def Let_def split: prod.splits option.splits)
  moreover have "\<not> running (snd (body_r3f arr s))"
    using pump_stopped [OF assms, of "queue s @ arr"]
    by (auto simp: body_r3f_def split: prod.splits option.splits error.splits)
  moreover have "\<not> running (afterEffect p s)"
    using assms by simp
  moreover have "\<not> running (frames_r3f ps s)"
    using assms by (rule frames_r3f_stopped)
  moreover have "Assign_running True \<notin> set (trace (final (run_main win envs)))"
    using run_main_trace_set [of win envs] by auto
  moreover have "Assign_running True \<notin> set (trace (final (run_r3f win envs')))"
    using run_r3f_trace_set [of win envs'] by auto
  ultimately show ?thesis
    using assms by (simp add: loop_main_stopped loop_r3f_stopped)
qed

theorem stopped_is_absorbing_witness:
  "\<not> running (initial\<lparr>running := False\<rparr>) \<and>
   \<not> running (snd (pump [[0, 3, 0, 0] @ replicate 52 0] (initial\<lparr>running := False\<rparr>))) \<and>
   \<not> running (afterEffect None (initial\<lparr>running := False\<rparr>)) \<and>
   \<not> running (frames_r3f [None, Some ''lost''] (initial\<lparr>running := False\<rparr>))"
  using stopped_is_absorbing [of "initial\<lparr>running := False\<rparr>" "[[0, 3, 0, 0] @ replicate 52 0]"
      _ _ None "[None, Some ''lost'']"]
  by simp

section \<open>Reads stay inside the buffers\<close>

lemma size_offsets:
  "(4::nat) + 4 = 8" "(4::nat) + 4 + 8 = 16" "(4::nat) + 4 + 8 + 8 = 24"
  "(8::nat) + 8 = 16" "(8::nat) + 8 + 8 = 24" "(16::nat) + 8 = 24"
  by simp_all

lemma reads_in_bounds:
  assumes "length view = 519"
  shows "getUint32 view 4 \<noteq> None" "getPointer view 8 \<noteq> None" "getPointer view 16 \<noteq> None"
    "getPointer view 24 \<noteq> None"
  using assms by (simp_all add: getUint32_def getPointer_def)

lemma branch_in_bounds:
  assumes "length view = 519"
  shows "surface_darwin_main view sub mv w h \<noteq> Inl OutOfBoundsRead"
    and "surface_windows_main view sub w h \<noteq> Inl OutOfBoundsRead"
    and "surface_linux view sub w h \<noteq> Inl OutOfBoundsRead"
    and "surface_darwin_r3f view mv w h \<noteq> Inl OutOfBoundsRead"
    and "surface_windows_r3f view w h \<noteq> Inl OutOfBoundsRead"
  unfolding surface_darwin_main_def surface_windows_main_def surface_linux_def
        surface_darwin_r3f_def surface_windows_r3f_def size_offsets
  using reads_in_bounds [OF assms]
  by (auto split: option.splits)

lemma decode_in_bounds:
  assumes "length view = 519"
  shows "decode_main os view mv w h \<noteq> Inl OutOfBoundsRead"
    and "decode_r3f os view mv w h \<noteq> Inl OutOfBoundsRead"
  unfolding decode_main_def decode_r3f_def
  using reads_in_bounds(1) [OF assms] branch_in_bounds [OF assms]
  by (auto split: option.splits)

lemma createSurface_in_bounds:
  "createSurface_main os sdl win mv w h \<noteq> Inl OutOfBoundsRead"
  "createSurface_r3f os sdl win mv w h \<noteq> Inl OutOfBoundsRead"
  unfolding createSurface_main_def createSurface_r3f_def
  using decode_in_bounds query_wm_info_length [of sdl win]
  by (auto simp: query_wm_info_cases split: sum.splits if_splits)


lemma loop_main_in_bounds:
  "length (event s) = 56 \<Longrightarrow> loop_main envs s \<noteq> Uncaught OutOfBoundsRead s'"
proof (induction envs arbitrary: s)
  case Nil
  show ?case by simp
next
  case (Cons env envs)
  from body_main_cases [OF Cons.prems, of env] obtain s1 where
    b: "body_main env s = (map_option Error (present_throws env), s1)"
    and l: "length (event s1) = 56"
    by blast
  show ?case
  proof (cases "present_throws env")
    case None
    with b Cons.IH [OF l] show ?thesis by simp
  next
    case (Some m)
    with b show ?thesis by simp
  qed
qed

lemma loop_r3f_in_bounds:
  "length (event s) = 56 \<Longrightarrow> loop_r3f envs s \<noteq> Uncaught e s'"
proof (induction envs arbitrary: s)
  case Nil
  show ?case by simp
next
  case (Cons env envs)
  from body_r3f_cases [OF Cons.prems, of "arrived env"] obtain s1 where
    b: "body_r3f (arrived env) s = (None, s1)" and l: "length (event s1) = 56"
    by blast
  from l have "length (event (frames_r3f (frames env) s1)) = 56" by simp
  from Cons.IH [OF this] b show ?case by simp
qed


lemma take_drop_prefix:
  "off + n \<le> k \<Longrightarrow> take n (drop off (take k xs)) = take n (drop off xs)"
  by (simp add: drop_take)

lemma reads_prefix:
  assumes "take 32 view = take 32 view'" and "length view = 519" and "length view' = 519"
  shows "getUint32 view 4 = getUint32 view' 4" "getPointer view 8 = getPointer view' 8"
    "getPointer view 16 = getPointer view' 16" "getPointer view 24 = getPointer view' 24"
proof -
  have a: "take 4 (drop 4 view) = take 4 (drop 4 view')"
    using take_drop_prefix [of 4 4 32 view] take_drop_prefix [of 4 4 32 view'] assms(1) by simp
  have b: "take 8 (drop 8 view) = take 8 (drop 8 view')"
    using take_drop_prefix [of 8 8 32 view] take_drop_prefix [of 8 8 32 view'] assms(1) by simp
  have c: "take 8 (drop 16 view) = take 8 (drop 16 view')"
    using take_drop_prefix [of 16 8 32 view] take_drop_prefix [of 16 8 32 view'] assms(1) by simp
  have d: "take 8 (drop 24 view) = take 8 (drop 24 view')"
    using take_drop_prefix [of 24 8 32 view] take_drop_prefix [of 24 8 32 view'] assms(1) by simp
  show "getUint32 view 4 = getUint32 view' 4"
    using assms(2,3) by (simp add: getUint32_def a)
  show "getPointer view 8 = getPointer view' 8"
    using assms(2,3) by (simp add: getPointer_def b)
  show "getPointer view 16 = getPointer view' 16"
    using assms(2,3) by (simp add: getPointer_def c)
  show "getPointer view 24 = getPointer view' 24"
    using assms(2,3) by (simp add: getPointer_def d)
qed


lemma branch_prefix:
  assumes "take 32 view = take 32 view'" and "length view = 519" and "length view' = 519"
  shows "surface_darwin_main view sub mv w h = surface_darwin_main view' sub mv w h"
    and "surface_windows_main view sub w h = surface_windows_main view' sub w h"
    and "surface_linux view sub w h = surface_linux view' sub w h"
    and "surface_darwin_r3f view mv w h = surface_darwin_r3f view' mv w h"
    and "surface_windows_r3f view w h = surface_windows_r3f view' w h"
  unfolding surface_darwin_main_def surface_windows_main_def surface_linux_def
        surface_darwin_r3f_def surface_windows_r3f_def size_offsets reads_prefix [OF assms]
  by (rule refl)+

lemma decode_prefix:
  assumes "take 32 view = take 32 view'" and "length view = 519" and "length view' = 519"
  shows "decode_main os view mv w h = decode_main os view' mv w h"
    and "decode_r3f os view mv w h = decode_r3f os view' mv w h"
  unfolding decode_main_def decode_r3f_def reads_prefix(1) [OF assms] branch_prefix [OF assms]
  by (rule refl)+


text \<open>
  C10. The event buffer has 56 bytes and the window-manager-info buffer
  3 + 4 + 8 * 64 = 519. No read of the decoder leaves them: surface creation, whatever
  the foreign calls write, and every run of either loop, whatever arrives in the event
  queue, never read out of bounds. The window-manager-info record is read in its first
  32 bytes only: two records that agree there decode alike.
\<close>

theorem reads_within_buffers:
  assumes "length view = sizeOfSDL_SysWMInfo" and "length view' = sizeOfSDL_SysWMInfo"
    and "take 32 view = take 32 view'"
  shows "sizeOfEvent = 56 \<and> sizeOfSDL_SysWMInfo = 519 \<and>
         length eventBuf = sizeOfEvent \<and> length wmInfoBuf = sizeOfSDL_SysWMInfo \<and>
         createSurface_main os sdl win mv w h \<noteq> Inl OutOfBoundsRead \<and>
         createSurface_r3f os sdl win mv w h \<noteq> Inl OutOfBoundsRead \<and>
         decode_main os view mv w h = decode_main os view' mv w h \<and>
         decode_r3f os view mv w h = decode_r3f os view' mv w h \<and>
         run_main win envs \<noteq> Uncaught OutOfBoundsRead s \<and>
         run_r3f win envs' \<noteq> Uncaught OutOfBoundsRead s'"
proof -
  have "run_main win envs \<noteq> Uncaught OutOfBoundsRead s"
    using loop_main_in_bounds [of initial envs]
    by (auto simp: run_main_def split: outcome.splits)
  moreover have "run_r3f win envs' \<noteq> Uncaught OutOfBoundsRead s'"
    using loop_r3f_in_bounds [of initial envs']
    by (auto simp: run_r3f_def split: outcome.splits)
  moreover have "decode_main os view mv w h = decode_main os view' mv w h"
    and "decode_r3f os view mv w h = decode_r3f os view' mv w h"
    using decode_prefix [of view view'] assms by (simp_all add: size_consts)
  ultimately show ?thesis
    by (simp add: size_consts createSurface_in_bounds)
qed


lemma take_32_synthetic:
  "take 32 (synthetic_wm_info v0 v1 v2 v3 d a b c rest) =
   take 32 (synthetic_wm_info v0 v1 v2 v3 d a b c rest')"
  by (simp add: synthetic_wm_info_def)

theorem reads_within_buffers_witness:
  "length (synthetic_wm_info 2 30 10 0 2 0x1000 0x2000 0x3000 (replicate 487 0))
     = sizeOfSDL_SysWMInfo \<and>
   decode_main Linux (synthetic_wm_info 2 30 10 0 2 0x1000 0x2000 0x3000 (replicate 487 0))
       0 800 600 =
     decode_main Linux (synthetic_wm_info 2 30 10 0 2 0x1000 0x2000 0x3000 (replicate 487 255))
       0 800 600 \<and>
   createSurface_r3f Windows (stub_sdl2 1 0 1 (replicate 600 255)) 1 0 800 600
     \<noteq> Inl OutOfBoundsRead \<and>
   run_main 1 [\<lparr>arrivals = [[0, 1]], present_throws = None\<rparr>] \<noteq> Uncaught OutOfBoundsRead initial"
proof -
  have l: "length (synthetic_wm_info 2 30 10 0 2 0x1000 0x2000 0x3000 (replicate 487 0))
             = sizeOfSDL_SysWMInfo"
    and l': "length (synthetic_wm_info 2 30 10 0 2 0x1000 0x2000 0x3000 (replicate 487 255))
             = sizeOfSDL_SysWMInfo"
    by (simp_all add: length_synthetic size_consts)
  from reads_within_buffers [OF l l' take_32_synthetic, of Linux _ 1 0 800 600
      "[\<lparr>arrivals = [[0, 1]], present_throws = None\<rparr>]" initial]
    reads_within_buffers [OF l l' take_32_synthetic, of Windows "stub_sdl2 1 0 1 (replicate 600 255)" 1 0 800 600]
    l
  show ?thesis by blast
qed

section \<open>Shutdown\<close>

lemma run_r3f_never_uncaught: "run_r3f win envs \<noteq> Uncaught e s"
  using loop_r3f_in_bounds [of initial envs]
  by (auto simp: run_r3f_def split: outcome.splits)

lemma shutdown_once_main:
  assumes "run_main win envs = Finished s"
  shows "\<exists>pre. trace s = pre @ [Call_SDL_DestroyWindow win, Call_SDL_Quit] \<and>
           (\<forall>p. Call_SDL_DestroyWindow p \<notin> set pre) \<and> Call_SDL_Quit \<notin> set pre"
proof -
  from assms obtain s0 where l: "loop_main envs initial = Finished s0"
    and s: "s = did [Call_SDL_DestroyWindow win, Call_SDL_Quit] s0"
    by (auto simp: run_main_def split: outcome.splits)
  from loop_main_trace_set [of envs initial] l
  have "(\<forall>p. Call_SDL_DestroyWindow p \<notin> set (trace s0)) \<and> Call_SDL_Quit \<notin> set (trace s0)"
    by auto
  with s show ?thesis by (intro exI [of _ "trace s0"]) simp
qed

lemma shutdown_once_r3f:
  assumes "run_r3f win envs = Finished s"
  shows "\<exists>pre. trace s = pre @ [Call_SDL_DestroyWindow win, Call_SDL_Quit, Deno_exit 0] \<and>
           (\<forall>p. Call_SDL_DestroyWindow p \<notin> set pre) \<and> Call_SDL_Quit \<notin> set pre"
proof -
  from assms obtain s0 where l: "loop_r3f envs initial = Finished s0"
    and s: "s = did [Call_SDL_DestroyWindow win, Call_SDL_Quit, Deno_exit 0] s0"
    by (auto simp: run_r3f_def split: outcome.splits)
  from loop_r3f_trace_set [of envs initial] l
  have "(\<forall>p. Call_SDL_DestroyWindow p \<notin> set (trace s0)) \<and> Call_SDL_Quit \<notin> set (trace s0)"
    by auto
  with s show ?thesis by (intro exI [of _ "trace s0"]) simp
qed

lemma no_shutdown_when_uncaught_main:
  assumes "run_main win envs = Uncaught e s"
  shows "(\<forall>p. Call_SDL_DestroyWindow p \<notin> set (trace s)) \<and> Call_SDL_Quit \<notin> set (trace s)"
proof -
  from assms have "loop_main envs initial = Uncaught e s"
    by (auto simp: run_main_def split: outcome.splits)
  with loop_main_trace_set [of envs initial] show ?thesis by auto
qed

lemma present_failure_is_uncaught_main:
  assumes "running s" and "length (event s) = 56" and "present_throws env = Some m"
  shows "\<exists>s1. loop_main (env # envs) s = Uncaught (Error m) s1"
proof -
  from body_main_cases [OF assms(2), of env] obtain s1 where
    "body_main env s = (map_option Error (present_throws env), s1)"
    by blast
  with assms(1,3) show ?thesis by simp
qed

text \<open>
  C1. After the loop has been left, the window is destroyed and then the library is quit,
  once each. Both files do so when the loop is left by its condition, and in
  \<^verbatim>\<open>r3f.tsx\<close> a failing present is caught and clears the flag, so that no run of it
  ends with an uncaught error. In \<^verbatim>\<open>main.ts\<close> nothing is caught: when
  \<^verbatim>\<open>surface.present()\<close> throws, in the first iteration here, the error leaves the
  loop and the program, and neither \<^verbatim>\<open>SDL_DestroyWindow\<close> nor \<^verbatim>\<open>SDL_Quit\<close> is
  called; \<^verbatim>\<open>r3f.tsx\<close> shuts down on the same failure.
\<close>

theorem present_failure_skips_shutdown_main:
  "run_main 1 [\<lparr>arrivals = [], present_throws = Some ''surface lost''\<rparr>] =
     Uncaught (Error ''surface lost'')
       \<lparr>running = True, frame = 0, event = eventBuf, queue = [],
        trace = [Call_SDL_PollEvent 0, Render, Present]\<rparr> \<and>
   run_r3f 1 [\<lparr>arrived = [], frames = [Some ''surface lost'']\<rparr>] =
     Finished
       \<lparr>running = False, frame = 0, event = eventBuf, queue = [],
        trace = [Call_SDL_PollEvent 0, SetTimeout 1, Render, Present, Assign_running False,
                 Call_SDL_DestroyWindow 1, Call_SDL_Quit, Deno_exit 0]\<rparr>"
  by (simp add: run_main_def run_r3f_def initial_def body_main_def body_r3f_def afterEffect_def
        did_def Let_def)


section \<open>Library resolution and window creation\<close>

lemma probe_first:
  assumes "i < length cs" and "stat_ok (cs ! i)" and "\<forall>j<i. \<not> stat_ok (cs ! j)"
  shows "probe stat_ok cs probed = (cs ! i, probed @ take (Suc i) cs)"
  using assms
proof (induction cs arbitrary: i probed)
  case Nil
  then show ?case by simp
next
  case (Cons c cs)
  show ?case
  proof (cases i)
    case 0
    with Cons.prems show ?thesis by simp
  next
    case (Suc k)
    with Cons.prems have "\<not> stat_ok c" by auto
    moreover have "k < length cs" "stat_ok (cs ! k)" "\<forall>j<k. \<not> stat_ok (cs ! j)"
      using Cons.prems Suc by auto
    ultimately show ?thesis
      using Cons.IH [of k "probed @ [c]"] Suc by simp
  qed
qed

lemma probe_none:
  "\<forall>c\<in>set cs. \<not> stat_ok c \<Longrightarrow> probe stat_ok cs probed = (''SDL2'', probed @ cs)"
  by (induction cs arbitrary: probed) auto

lemma all_less_2: "(\<forall>j<2. P j) = (P 0 \<and> P (Suc 0))"
  by (auto simp: less_Suc_eq numeral_2_eq_2)

text \<open>
  C6. On a build for another system than macOS, \<^verbatim>\<open>resolveSdl2Library\<close> returns the
  bare name and probes nothing. On macOS it returns the first candidate of the list, in
  its order, for which \<^verbatim>\<open>Deno.statSync\<close> returns, having probed the candidates up to
  it; when it returns for none of them, the result is the bare name.
\<close>

theorem resolve_first_existing:
  "(BUILD_OS \<noteq> Darwin \<longrightarrow> resolveSdl2Library BUILD_OS stat_ok = (''SDL2'', [])) \<and>
   (i < length candidates \<and> stat_ok (candidates ! i) \<and> (\<forall>j<i. \<not> stat_ok (candidates ! j)) \<longrightarrow>
      resolveSdl2Library Darwin stat_ok = (candidates ! i, take (Suc i) candidates)) \<and>
   ((\<forall>c\<in>set candidates. \<not> stat_ok c) \<longrightarrow>
      resolveSdl2Library Darwin stat_ok = (''SDL2'', candidates))"
  using probe_first [of i candidates stat_ok "[]"] probe_none [of candidates stat_ok "[]"]
  by (simp add: resolveSdl2Library_def)


theorem resolve_first_existing_witness:
  "resolveSdl2Library Linux (\<lambda>p. True) = (''SDL2'', []) \<and>
   resolveSdl2Library Darwin
     (\<lambda>p. p = ''/usr/local/opt/sdl2/lib/libSDL2.dylib'' \<or> p = ''/usr/local/lib/libSDL2.dylib'') =
     (''/usr/local/opt/sdl2/lib/libSDL2.dylib'',
      [''/opt/homebrew/opt/sdl2/lib/libSDL2.dylib'', ''/opt/homebrew/lib/libSDL2.dylib'',
       ''/usr/local/opt/sdl2/lib/libSDL2.dylib'']) \<and>
   resolveSdl2Library Darwin (\<lambda>p. False) =
     (''SDL2'',
      [''/opt/homebrew/opt/sdl2/lib/libSDL2.dylib'', ''/opt/homebrew/lib/libSDL2.dylib'',
       ''/usr/local/opt/sdl2/lib/libSDL2.dylib'', ''/usr/local/lib/libSDL2.dylib'', ''SDL2''])"
proof -
  have "resolveSdl2Library Linux (\<lambda>p. True) = (''SDL2'', [])"
    using resolve_first_existing [of Linux "\<lambda>p. True" 0] by simp
  moreover have "resolveSdl2Library Darwin
     (\<lambda>p. p = ''/usr/local/opt/sdl2/lib/libSDL2.dylib'' \<or> p = ''/usr/local/lib/libSDL2.dylib'') =
     (''/usr/local/opt/sdl2/lib/libSDL2.dylib'',
      [''/opt/homebrew/opt/sdl2/lib/libSDL2.dylib'', ''/opt/homebrew/lib/libSDL2.dylib'',
       ''/usr/local/opt/sdl2/lib/libSDL2.dylib''])"
    using resolve_first_existing [of Darwin
      "\<lambda>p. p = ''/usr/local/opt/sdl2/lib/libSDL2.dylib'' \<or> p = ''/usr/local/lib/libSDL2.dylib''" 2]
    by (simp add: candidates_def all_less_2)
  moreover have "resolveSdl2Library Darwin (\<lambda>p. False) =
     (''SDL2'',
      [''/opt/homebrew/opt/sdl2/lib/libSDL2.dylib'', ''/opt/homebrew/lib/libSDL2.dylib'',
       ''/usr/local/opt/sdl2/lib/libSDL2.dylib'', ''/usr/local/lib/libSDL2.dylib'', ''SDL2''])"
    using resolve_first_existing [of Darwin "\<lambda>p. False" 0]
    by (simp add: candidates_def)
  ultimately show ?thesis by blast
qed

text \<open>
  C8. For every title and every width and height that the \<^verbatim>\<open>i32\<close> parameters of the
  native call take, \<^verbatim>\<open>createWindow\<close> throws exactly when \<^verbatim>\<open>SDL_CreateWindow\<close> returns
  the null pointer, and then it throws the window-creation error without asking for a
  view. Otherwise, on macOS it calls \<^verbatim>\<open>SDL_Metal_CreateView\<close> on the window and returns
  the result, null or not; on every other system it makes no such call and the view is
  null.
\<close>

theorem createWindow_fails_iff_null:
  "((\<exists>e. fst (createWindow BUILD_OS sdl title (w :: i32) (h :: i32)) = Inl e) \<longleftrightarrow>
      SDL_CreateWindow sdl (asCString title) 0x2FFF0000 0x2FFF0000 w h
        (SDL_WINDOW_SHOWN OR SDL_WINDOW_RESIZABLE) = 0) \<and>
   (\<forall>e. fst (createWindow BUILD_OS sdl title w h) = Inl e \<longrightarrow>
      e = Error ''SDL_CreateWindow failed'' \<and>
      (\<forall>p. Call_SDL_Metal_CreateView p \<notin> set (snd (createWindow BUILD_OS sdl title w h)))) \<and>
   (\<forall>raw. raw \<noteq> 0 \<and>
      SDL_CreateWindow sdl (asCString title) 0x2FFF0000 0x2FFF0000 w h
        (SDL_WINDOW_SHOWN OR SDL_WINDOW_RESIZABLE) = raw \<longrightarrow>
      (BUILD_OS = Darwin \<longrightarrow>
         createWindow BUILD_OS sdl title w h =
           (Inr \<lparr>window = raw, metalView = SDL_Metal_CreateView sdl raw\<rparr>,
            [Call_SDL_CreateWindow (asCString title) 0x2FFF0000 0x2FFF0000 w h 0x24,
             Call_SDL_Metal_CreateView raw])) \<and>
      (BUILD_OS \<noteq> Darwin \<longrightarrow>
         createWindow BUILD_OS sdl title w h =
           (Inr \<lparr>window = raw, metalView = 0\<rparr>,
            [Call_SDL_CreateWindow (asCString title) 0x2FFF0000 0x2FFF0000 w h 0x24])))"
proof -
  have flags: "SDL_WINDOW_SHOWN OR SDL_WINDOW_RESIZABLE = (0x24 :: u32)"
    by (simp add: SDL_WINDOW_SHOWN_def SDL_WINDOW_RESIZABLE_def)
  show ?thesis
    unfolding flags by (auto simp: createWindow_def Let_def flags)
qed

theorem createWindow_fails_iff_null_witness:
  "createWindow Darwin (stub_sdl2 0 7 1 []) ''t'' 800 600 =
     (Inl (Error ''SDL_CreateWindow failed''),
      [Call_SDL_CreateWindow [116, 0] 0x2FFF0000 0x2FFF0000 800 600 0x24]) \<and>
   createWindow Darwin (stub_sdl2 5 0 1 []) ''t'' 800 600 =
     (Inr \<lparr>window = 5, metalView = 0\<rparr>,
      [Call_SDL_CreateWindow [116, 0] 0x2FFF0000 0x2FFF0000 800 600 0x24,
       Call_SDL_Metal_CreateView 5]) \<and>
   createWindow Linux (stub_sdl2 5 7 1 []) ''t'' 800 600 =
     (Inr \<lparr>window = 5, metalView = 0\<rparr>,
      [Call_SDL_CreateWindow [116, 0] 0x2FFF0000 0x2FFF0000 800 600 0x24])"
proof -
  have t: "asCString ''t'' = [116, 0]"
    by (simp add: asCString_def)
  have a: "createWindow Darwin (stub_sdl2 0 7 1 []) ''t'' 800 600 =
     (Inl (Error ''SDL_CreateWindow failed''),
      [Call_SDL_CreateWindow [116, 0] 0x2FFF0000 0x2FFF0000 800 600 0x24])"
    by (simp add: createWindow_def stub_sdl2_def t SDL_WINDOW_SHOWN_def SDL_WINDOW_RESIZABLE_def)
  from createWindow_fails_iff_null [of Darwin "stub_sdl2 5 0 1 []" "''t''" 800 600]
  have b: "createWindow Darwin (stub_sdl2 5 0 1 []) ''t'' 800 600 =
     (Inr \<lparr>window = 5, metalView = 0\<rparr>,
      [Call_SDL_CreateWindow [116, 0] 0x2FFF0000 0x2FFF0000 800 600 0x24,
       Call_SDL_Metal_CreateView 5])"
    by (simp add: stub_sdl2_def t)
  from createWindow_fails_iff_null [of Linux "stub_sdl2 5 7 1 []" "''t''" 800 600]
  have c: "createWindow Linux (stub_sdl2 5 7 1 []) ''t'' 800 600 =
     (Inr \<lparr>window = 5, metalView = 0\<rparr>,
      [Call_SDL_CreateWindow [116, 0] 0x2FFF0000 0x2FFF0000 800 600 0x24])"
    by (simp add: stub_sdl2_def t)
  from a b c show ?thesis by blast
qed

end
